theory Spec2Isabelle
  imports Main
begin

section \<open>Data model\<close>

text \<open>
  The portal keeps three MongoDB collections (users, jobs, applications). A collection is
  modelled as the list of its documents in insertion order; a document is a record with
  the fields of its Mongoose schema that the route handlers read or write. An ObjectId is
  a natural number, a Date is its number of milliseconds (an integer). A schema path that
  may be absent from a document is an option.

  Requests are handled one at a time. \<open>req.session\<close> always exists (src/server.js
  installs the session middleware before the routers), so a handler sees
  \<open>req.session.user\<close> as a user document or as undefined. A route parameter that
  a handler only passes to the database is taken as the ObjectId it is cast to; where a
  handler compares the parameter as a string (the guard of the admin's delete-user
  handler), the string itself is the input. The database itself does not fail; what can
  throw inside a handler is a property read on null or undefined, a failed cast and a
  failed schema validation, and all end in the handler's \<open>catch\<close> branch.
\<close>

type_synonym oid = nat
type_synonym date = int

text \<open>
  The User schema (src/unnamed/part_002, lines 46-72). \<open>password\<close> holds the
  bcrypt hash.
\<close>

record user =
  uid :: oid
  email :: string
  password :: string
  role :: string
  user_resume :: "string option"

text \<open>
  The Job schema (src/models/Job.js); its descriptive text fields play no part in the
  handlers below.
\<close>

record job =
  job_id :: oid
  job_companyId :: oid
  job_status :: string
  deadline :: "date option"

text \<open>The Application schema (src/unnamed/part_002, lines 3-41).\<close>

record application =
  app_id :: oid
  studentId :: oid
  jobId :: oid
  companyId :: oid
  status :: "string option"
  appliedDate :: date
  resume :: string
  coverLetter :: "string option"
  interviewDate :: "date option"
  interviewMode :: "string option"
  interviewLocation :: "string option"
  interviewLink :: "string option"

record store =
  users :: "user list"
  jobs :: "job list"
  applications :: "application list"

text \<open>
  What a handler sends back: \<open>res.status(c).json(..)\<close>, \<open>res.render(..)\<close>,
  \<open>res.redirect(..)\<close>, \<open>res.status(c).send(..)\<close>. A JSON body is one of the three
  shapes the handlers use: \<open>{error}\<close>, \<open>{message}\<close>, \<open>{success, message}\<close>.
\<close>

datatype payload =
  ErrorBody string
  | MessageBody string
  | SuccessBody bool "string option"

datatype response =
  Json nat payload
  | Render nat string "string option"
  | Redirect string
  | Send nat string

section \<open>Collection queries\<close>

text \<open>JavaScript truthiness of a value that is a string or undefined.\<close>

definition truthy :: "string option \<Rightarrow> bool" where
  "truthy v = (case v of None \<Rightarrow> False | Some s \<Rightarrow> s \<noteq> [])"

text \<open>\<open>Model.findById\<close>: the document of the collection with the given \<open>_id\<close>.\<close>

definition findById :: "('a \<Rightarrow> oid) \<Rightarrow> 'a list \<Rightarrow> oid \<Rightarrow> 'a option" where
  "findById ident xs i = find (\<lambda>x. ident x = i) xs"

text \<open>\<open>Model.deleteMany(filter)\<close>.\<close>

definition deleteMany :: "('a \<Rightarrow> bool) \<Rightarrow> 'a list \<Rightarrow> 'a list" where
  "deleteMany P xs = filter (\<lambda>x. \<not> P x) xs"

text \<open>\<open>Model.findByIdAndDelete\<close>: removes one document, the first that matches.\<close>

fun deleteOne :: "('a \<Rightarrow> bool) \<Rightarrow> 'a list \<Rightarrow> 'a list" where
  "deleteOne P [] = []"
| "deleteOne P (x # xs) = (if P x then xs else x # deleteOne P xs)"

text \<open>Saving a loaded document writes it back over the stored document with its \<open>_id\<close>.\<close>

fun updateOne :: "('a \<Rightarrow> bool) \<Rightarrow> 'a \<Rightarrow> 'a list \<Rightarrow> 'a list" where
  "updateOne P d [] = []"
| "updateOne P d (x # xs) = (if P x then d # xs else x # updateOne P d xs)"

text \<open>
  Schema validation run by \<open>save()\<close> on an Application: \<open>status\<close> and
  \<open>interviewMode\<close> are enums (an absent value passes), \<open>resume\<close> is a required
  string (the empty string fails \<open>required\<close>).
\<close>

definition validApplication :: "application \<Rightarrow> bool" where
  "validApplication a =
     ((case status a of None \<Rightarrow> True
        | Some s \<Rightarrow> s \<in> set [''pending'', ''shortlisted'', ''rejected'', ''hired''])
      \<and> resume a \<noteq> []
      \<and> (case interviewMode a of None \<Rightarrow> True
          | Some m \<Rightarrow> m \<in> set [''Online'', ''Offline'']))"

section \<open>Student: applying for a job\<close>

text \<open>
  The student router (src/routes/index.js, lines 799-847),
  \<open>POST /student/jobs/:jobId/apply\<close>. \<open>now\<close> is the
  value of \<open>new Date()\<close> and \<open>newId\<close> the ObjectId that \<open>new Application\<close>
  generates; \<open>sess\<close> is \<open>req.session.user\<close>. The checks run in the order of the
  source; anything thrown inside \<open>try\<close> ends in the 500 response of \<open>catch\<close>.
\<close>

definition applyForJob ::
  "date \<Rightarrow> oid \<Rightarrow> user option \<Rightarrow> oid \<Rightarrow> store \<Rightarrow> response \<times> store" where
  "applyForJob now newId sess jobIdParam st =
     (case sess of
        None \<Rightarrow> (Json 401 (ErrorBody ''Please login to apply''), st)
      | Some u \<Rightarrow>
          if \<not> truthy (user_resume u)
          then (Json 400 (ErrorBody ''Please upload your resume before applying''), st)
          else (case findById job_id (jobs st) jobIdParam of
                  None \<Rightarrow> (Json 404 (ErrorBody ''Job not found or no longer active''), st)
                | Some j \<Rightarrow>
                    if job_status j \<noteq> ''active''
                    then (Json 404 (ErrorBody ''Job not found or no longer active''), st)
                    else if (case deadline j of None \<Rightarrow> False | Some d \<Rightarrow> d < now)
                    then (Json 400 (ErrorBody ''Application deadline has passed''), st)
                    else (case find (\<lambda>a. studentId a = uid u \<and> jobId a = job_id j)
                                 (applications st) of
                            Some existingApplication \<Rightarrow>
                              (Json 400 (ErrorBody ''You have already applied to this job''), st)
                          | None \<Rightarrow>
                              (let application =
                                     \<lparr> app_id = newId, studentId = uid u, jobId = job_id j,
                                       companyId = job_companyId j,
                                       status = Some ''pending'', appliedDate = now,
                                       resume = (case user_resume u of
                                                   None \<Rightarrow> [] | Some r \<Rightarrow> r),
                                       coverLetter = None, interviewDate = None,
                                       interviewMode = None, interviewLocation = None,
                                       interviewLink = None \<rparr>
                               in if validApplication application
                                  then (Json 200 (MessageBody ''Application submitted successfully''),
                                        st\<lparr>applications := applications st @ [application]\<rparr>)
                                  else (Json 500 (ErrorBody
                                          ''Failed to submit application. Please try again.''),
                                        st)))))"

text \<open>
  The controller \<open>studentApply\<close> (src/unnamed/part_001, lines 138-164), the
  controller-level variant of the same operation. It
  checks only that the job exists and that the pair is new; \<open>status\<close> and
  \<open>appliedDate\<close> come from the schema defaults.
\<close>

definition studentApply ::
  "date \<Rightarrow> oid \<Rightarrow> user option \<Rightarrow> oid \<Rightarrow> string option \<Rightarrow> store \<Rightarrow> response \<times> store" where
  "studentApply now newId sess jobIdParam coverLetterIn st =
     (case findById job_id (jobs st) jobIdParam of
        None \<Rightarrow> (Json 404 (SuccessBody False (Some ''Job not found'')), st)
      | Some j \<Rightarrow>
          (case sess of
             None \<Rightarrow> (Json 500 (SuccessBody False (Some ''Error applying'')), st)
           | Some u \<Rightarrow>
               (case find (\<lambda>a. jobId a = jobIdParam \<and> studentId a = uid u)
                          (applications st) of
                  Some existing \<Rightarrow> (Json 400 (SuccessBody False (Some ''Already applied'')), st)
                | None \<Rightarrow>
                    (let application =
                           \<lparr> app_id = newId, studentId = uid u, jobId = jobIdParam,
                             companyId = job_companyId j,
                             status = Some ''pending'', appliedDate = now,
                             resume = (if truthy (user_resume u)
                                       then (case user_resume u of None \<Rightarrow> [] | Some r \<Rightarrow> r)
                                       else []),
                             coverLetter = Some (if truthy coverLetterIn
                                                 then (case coverLetterIn of
                                                         None \<Rightarrow> [] | Some c \<Rightarrow> c)
                                                 else []),
                             interviewDate = None, interviewMode = None,
                             interviewLocation = None, interviewLink = None \<rparr>
                     in if validApplication application
                        then (Json 200 (SuccessBody True (Some ''Applied successfully'')),
                              st\<lparr>applications := applications st @ [application]\<rparr>)
                        else (Json 500 (SuccessBody False (Some ''Error applying'')), st)))))"

text \<open>The uniqueness invariant: no two Application documents share (student, job).\<close>

definition uniquePairs :: "application list \<Rightarrow> bool" where
  "uniquePairs apps = distinct (map (\<lambda>a. (studentId a, jobId a)) apps)"


text \<open>
  The student router (src/routes/index.js, lines 952-1004),
  \<open>POST /student/profile/resume\<close>: the only handler that
  changes a student's resume reference. \<open>xhr\<close> says whether the request asks for JSON,
  \<open>mvOk\<close> whether moving the uploaded file succeeded, \<open>filename\<close> is the generated
  file name. The result carries the new \<open>req.session.user\<close>.
\<close>

primrec strIncludes :: "string \<Rightarrow> string \<Rightarrow> bool" where
  "strIncludes [] sub = (sub = [])"
| "strIncludes (c # cs) sub = (take (length sub) (c # cs) = sub \<or> strIncludes cs sub)"

definition updateResume ::
  "bool \<Rightarrow> bool \<Rightarrow> string \<Rightarrow> user option \<Rightarrow> string option \<Rightarrow> store
     \<Rightarrow> response \<times> user option \<times> store" where
  "updateResume xhr mvOk filename sess mimetype st =
     (case mimetype of
        None \<Rightarrow>
          (if xhr then Json 400 (SuccessBody False (Some ''No resume file uploaded''))
           else Redirect ''/student/profile?error=No+resume+file+uploaded'', sess, st)
      | Some mt \<Rightarrow>
          if \<not> strIncludes mt ''pdf''
          then (if xhr then Json 400 (SuccessBody False (Some ''Only PDF files are allowed''))
                else Redirect ''/student/profile?error=Only+PDF+files+are+allowed'', sess, st)
          else (case sess of
                  None \<Rightarrow>
                    (if xhr then Json 500 (SuccessBody False (Some ''Failed to upload resume''))
                     else Redirect ''/student/profile?error=Failed+to+upload+resume'', sess, st)
                | Some u \<Rightarrow>
                    if \<not> mvOk
                    then (if xhr
                          then Json 500 (SuccessBody False (Some ''Failed to upload resume''))
                          else Redirect ''/student/profile?error=Failed+to+upload+resume'',
                          sess, st)
                    else (case findById uid (users st) (uid u) of
                            None \<Rightarrow>
                              (if xhr
                               then Json 500 (SuccessBody False (Some ''Failed to upload resume''))
                               else Redirect ''/student/profile?error=Failed+to+upload+resume'',
                               sess, st)
                          | Some doc \<Rightarrow>
                              (let updated =
                                     doc\<lparr>user_resume := Some (''/uploads/resumes/'' @ filename)\<rparr>
                               in (if xhr
                                   then Json 200 (SuccessBody True
                                                   (Some ''Resume updated successfully''))
                                   else Redirect
                                          ''/student/profile?success=Resume+updated+successfully'',
                                   Some updated,
                                   st\<lparr>users := updateOne (\<lambda>x. uid x = uid u) updated
                                                   (users st)\<rparr>)))))"

section \<open>Company: application status and interview details\<close>

text \<open>\<open>String.prototype.toLowerCase\<close> on the ASCII letters.\<close>

definition lowerChar :: "char \<Rightarrow> char" where
  "lowerChar c =
     (let n = (of_char c :: nat) in if 65 \<le> n \<and> n \<le> 90 then char_of (n + 32) else c)"

definition toLowerCase :: "string \<Rightarrow> string" where
  "toLowerCase s = map lowerChar s"

text \<open>The fields of \<open>req.body\<close> that the two company handlers read.\<close>

record status_body =
  b_status :: "string option"
  b_interviewDate :: "string option"
  b_interviewMode :: "string option"
  b_interviewLocation :: "string option"
  b_interviewLink :: "string option"

text \<open>
  The four guarded assignments shared by the status and the schedule-interview handlers:
  a field is assigned only when the request supplies a truthy value. \<open>mkDate\<close> is the
  JavaScript \<open>Date\<close> constructor on strings, \<open>None\<close> standing for an Invalid Date,
  which Mongoose refuses to cast, so that the later \<open>save()\<close> fails: the result is
  \<open>None\<close> then.
\<close>

definition setInterviewFields ::
  "(string \<Rightarrow> date option) \<Rightarrow> status_body \<Rightarrow> application \<Rightarrow> application option" where
  "setInterviewFields mkDate b a =
     (let a1 = (case b_interviewDate b of
                  None \<Rightarrow> Some a
                | Some s \<Rightarrow>
                    if s = [] then Some a
                    else (case mkDate s of
                            None \<Rightarrow> None
                          | Some d \<Rightarrow> Some (a\<lparr>interviewDate := Some d\<rparr>)));
          set2 = (\<lambda>x. if truthy (b_interviewMode b)
                       then x\<lparr>interviewMode := b_interviewMode b\<rparr> else x);
          set3 = (\<lambda>x. if truthy (b_interviewLocation b)
                       then x\<lparr>interviewLocation := b_interviewLocation b\<rparr> else x);
          set4 = (\<lambda>x. if truthy (b_interviewLink b)
                       then x\<lparr>interviewLink := b_interviewLink b\<rparr> else x)
      in map_option (\<lambda>x. set4 (set3 (set2 x))) a1)"

text \<open>\<open>application.save()\<close> of a loaded document: validate, then write back.\<close>

definition saveApplication ::
  "application option \<Rightarrow> response \<Rightarrow> response \<Rightarrow> store \<Rightarrow> response \<times> store" where
  "saveApplication doc ok failed st =
     (case doc of
        None \<Rightarrow> (failed, st)
      | Some a \<Rightarrow>
          if validApplication a
          then (ok, st\<lparr>applications :=
                          updateOne (\<lambda>x. app_id x = app_id a) a (applications st)\<rparr>)
          else (failed, st))"

text \<open>
  src/routes/companyRoutes.js, lines 388-421,
  \<open>POST /company/applications/:applicationId/status\<close>. The
  application is loaded with its job populated; \<open>populate\<close> leaves \<open>jobId\<close> null
  when the job document is gone, and reading \<open>companyId\<close> of null throws.
\<close>

definition updateStatus ::
  "(string \<Rightarrow> date option) \<Rightarrow> user option \<Rightarrow> oid \<Rightarrow> status_body \<Rightarrow> store
     \<Rightarrow> response \<times> store" where
  "updateStatus mkDate sess applicationId b st =
     (case findById app_id (applications st) applicationId of
        None \<Rightarrow> (Json 404 (ErrorBody ''Application not found''), st)
      | Some application \<Rightarrow>
          (case findById job_id (jobs st) (jobId application) of
             None \<Rightarrow> (Json 500 (ErrorBody ''Failed to update status''), st)
           | Some j \<Rightarrow>
               (case sess of
                  None \<Rightarrow> (Json 500 (ErrorBody ''Failed to update status''), st)
                | Some u \<Rightarrow>
                    if job_companyId j \<noteq> uid u
                    then (Json 404 (ErrorBody ''Application not found''), st)
                    else (case b_status b of
                            None \<Rightarrow> (Json 500 (ErrorBody ''Failed to update status''), st)
                          | Some s \<Rightarrow>
                              (let a1 = application\<lparr>status := Some (toLowerCase s)\<rparr>;
                                   a2 = (if s = ''shortlisted'' \<or> s = ''Shortlisted''
                                         then setInterviewFields mkDate b a1
                                         else Some a1)
                               in saveApplication a2
                                    (Json 200 (MessageBody
                                       ''Application status updated successfully''))
                                    (Json 500 (ErrorBody ''Failed to update status''))
                                    st)))))"

text \<open>
  The controller \<open>updateApplicationStatus\<close> (src/unnamed/part_001, lines 92-114),
  the controller-level variant. It compares
  the application's own \<open>companyId\<close> field and answers 403 on a mismatch.
\<close>

definition updateApplicationStatus ::
  "user option \<Rightarrow> oid \<Rightarrow> string option \<Rightarrow> store \<Rightarrow> response \<times> store" where
  "updateApplicationStatus sess appId statusIn st =
     (case findById app_id (applications st) appId of
        None \<Rightarrow> (Json 404 (SuccessBody False (Some ''Application not found'')), st)
      | Some application \<Rightarrow>
          (case sess of
             None \<Rightarrow> (Json 500 (SuccessBody False (Some ''Error updating status'')), st)
           | Some u \<Rightarrow>
               if companyId application \<noteq> uid u
               then (Json 403 (SuccessBody False (Some ''Not authorized'')), st)
               else saveApplication (Some (application\<lparr>status := statusIn\<rparr>))
                      (Json 200 (SuccessBody True None))
                      (Json 500 (SuccessBody False (Some ''Error updating status'')))
                      st))"

section \<open>Deleting jobs and users\<close>

text \<open>src/routes/companyRoutes.js, lines 337-359, \<open>DELETE /company/jobs/:jobId\<close>.\<close>

definition companyDeleteJob :: "user option \<Rightarrow> oid \<Rightarrow> store \<Rightarrow> response \<times> store" where
  "companyDeleteJob sess jobIdParam st =
     (case sess of
        None \<Rightarrow> (Json 500 (ErrorBody ''Failed to delete job''), st)
      | Some u \<Rightarrow>
          (case find (\<lambda>j. job_id j = jobIdParam \<and> job_companyId j = uid u) (jobs st) of
             None \<Rightarrow> (Json 404 (ErrorBody ''Job not found''), st)
           | Some j \<Rightarrow>
               (Json 200 (MessageBody ''Job deleted successfully''),
                st\<lparr>applications := deleteMany (\<lambda>a. jobId a = jobIdParam) (applications st),
                   jobs := deleteOne (\<lambda>x. job_id x = jobIdParam) (jobs st)\<rparr>)))"

text \<open>
  The admin router (src/routes/index.js, lines 257-287), \<open>DELETE /admin/jobs/:id\<close>.
\<close>

definition adminDeleteJob :: "oid \<Rightarrow> store \<Rightarrow> response \<times> store" where
  "adminDeleteJob jobIdParam st =
     (Json 200 (MessageBody ''Job deleted successfully''),
      st\<lparr>applications := deleteMany (\<lambda>a. jobId a = jobIdParam) (applications st),
         jobs := deleteOne (\<lambda>x. job_id x = jobIdParam) (jobs st)\<rparr>)"

text \<open>
  An ObjectId as a string. \<open>toString()\<close> of an ObjectId is its 24 hexadecimal digits
  in lower case. Casting a string to an ObjectId, as Mongoose does with the id of a query,
  accepts 24 hexadecimal digits in either case and refuses any other string.
\<close>

definition hexDigit :: "nat \<Rightarrow> char" where
  "hexDigit d = char_of (if d < 10 then 48 + d else 87 + d)"

definition hexValue :: "char \<Rightarrow> nat option" where
  "hexValue c =
     (let n = (of_char c :: nat)
      in if 48 \<le> n \<and> n \<le> 57 then Some (n - 48)
         else if 97 \<le> n \<and> n \<le> 102 then Some (n - 87)
         else if 65 \<le> n \<and> n \<le> 70 then Some (n - 55)
         else None)"

fun hexDigits :: "nat \<Rightarrow> string" where
  "hexDigits n = (if n = 0 then [] else hexDigits (n div 16) @ [hexDigit (n mod 16)])"

declare hexDigits.simps [simp del]

definition oidToString :: "oid \<Rightarrow> string" where
  "oidToString n = replicate (24 - length (hexDigits n)) CHR ''0'' @ hexDigits n"

fun fromHex :: "nat \<Rightarrow> string \<Rightarrow> nat option" where
  "fromHex acc [] = Some acc"
| "fromHex acc (c # cs) =
     (case hexValue c of None \<Rightarrow> None | Some v \<Rightarrow> fromHex (16 * acc + v) cs)"

definition castObjectId :: "string \<Rightarrow> oid option" where
  "castObjectId s = (if length s = 24 then fromHex 0 s else None)"

text \<open>
  The admin router (src/routes/index.js, lines 121-147),
  \<open>DELETE /admin/users/:id\<close>. \<open>userId\<close> is the string \<open>req.params.id\<close>: the
  guard compares it, as a string, with \<open>req.session.user._id.toString()\<close>; every
  database call that follows casts it to an ObjectId (\<open>target\<close>), and a failed cast
  throws in the first of them. \<open>queryRole\<close> is \<open>req.query.role\<close>: the cascade is
  chosen by the request's query string.
\<close>

definition adminDeleteUser ::
  "user option \<Rightarrow> string \<Rightarrow> string option \<Rightarrow> store \<Rightarrow> response \<times> store" where
  "adminDeleteUser sess userId queryRole st =
     (case sess of
        None \<Rightarrow> (Json 500 (ErrorBody ''Failed to delete user''), st)
      | Some u \<Rightarrow>
          if userId = oidToString (uid u)
          then (Json 400 (ErrorBody ''You cannot delete your own account''), st)
          else (case castObjectId userId of
                  None \<Rightarrow> (Json 500 (ErrorBody ''Failed to delete user''), st)
                | Some target \<Rightarrow>
                    (let st1 =
                           (if queryRole = Some ''student''
                            then st\<lparr>applications :=
                                      deleteMany (\<lambda>a. studentId a = target) (applications st)\<rparr>
                            else if queryRole = Some ''company''
                            then (let jobIds = map job_id
                                                 (filter (\<lambda>j. job_companyId j = target)
                                                    (jobs st))
                                  in st\<lparr>applications :=
                                           deleteMany (\<lambda>a. jobId a \<in> set jobIds)
                                             (applications st),
                                         jobs := deleteMany (\<lambda>j. job_companyId j = target)
                                                   (jobs st)\<rparr>)
                            else st)
                     in (Json 200 (MessageBody ''User deleted successfully''),
                         st1\<lparr>users := deleteOne (\<lambda>x. uid x = target) (users st1)\<rparr>))))"

section \<open>Login\<close>

record login_body =
  b_email :: "string option"
  b_password :: "string option"
  b_role :: "string option"
  b_adminKey :: "string option"

text \<open>A query sent to the database, recorded in the order of execution.\<close>

datatype db_event = UserFindOne "string option" "string option"

text \<open>
  src/controllers/authController.js, lines 52-87, \<open>loginUser\<close>. \<open>compare\<close> is
  \<open>bcrypt.compare\<close>,
  \<open>correctAdminKey\<close> is \<open>process.env.ADMIN_KEY\<close>. The result is the response, the new
  \<open>req.session.user\<close> and the database queries that were issued.
\<close>

definition loginUser ::
  "(string \<Rightarrow> string \<Rightarrow> bool) \<Rightarrow> string option \<Rightarrow> login_body \<Rightarrow> user option \<Rightarrow> user list
     \<Rightarrow> response \<times> user option \<times> db_event list" where
  "loginUser compare correctAdminKey b sess usersColl =
     (if b_role b = Some ''admin''
         \<and> (\<not> truthy (b_adminKey b) \<or> b_adminKey b \<noteq> correctAdminKey)
      then (Render 200 ''pages/login'' (Some ''Invalid admin key. Access denied.''), sess, [])
      else (let trace = [UserFindOne (b_email b) (b_role b)]
            in case find (\<lambda>u. Some (email u) = b_email b \<and> Some (role u) = b_role b)
                         usersColl of
                 None \<Rightarrow> (Render 200 ''pages/login'' (Some ''Invalid credentials''), sess, trace)
               | Some u \<Rightarrow>
                   (case b_password b of
                      None \<Rightarrow>
                        (Render 200 ''pages/login'' (Some ''Login failed. Please try again.''),
                         sess, trace)
                    | Some p \<Rightarrow>
                        if \<not> compare p (password u)
                        then (Render 200 ''pages/login'' (Some ''Invalid credentials''),
                              sess, trace)
                        else (Redirect (if role u = ''admin'' then ''/admin/dashboard''
                                        else if role u = ''company'' then ''/company/dashboard''
                                        else if role u = ''student'' then ''/student/dashboard''
                                        else ''/''),
                              Some u, trace))))"

section \<open>Authorization gate\<close>

text \<open>A middleware either calls \<open>next()\<close> or answers the request itself.\<close>

datatype gate = Next | Respond response

text \<open>src/middleware/roleMiddleware.js.\<close>

definition isAdmin :: "user option \<Rightarrow> gate" where
  "isAdmin sess =
     (case sess of
        Some u \<Rightarrow>
          if role u = ''admin'' then Next
          else Respond (Render 403 ''pages/error''
                          (Some ''Access denied. Admin privileges required.''))
      | None \<Rightarrow> Respond (Render 403 ''pages/error''
                           (Some ''Access denied. Admin privileges required.'')))"

definition isCompany :: "user option \<Rightarrow> gate" where
  "isCompany sess =
     (case sess of
        Some u \<Rightarrow>
          if role u = ''company'' then Next
          else Respond (Render 403 ''pages/error''
                          (Some ''Access denied. Company account required.''))
      | None \<Rightarrow> Respond (Render 403 ''pages/error''
                           (Some ''Access denied. Company account required.'')))"

definition isStudent :: "user option \<Rightarrow> gate" where
  "isStudent sess =
     (case sess of
        Some u \<Rightarrow>
          if role u = ''student'' then Next
          else Respond (Render 403 ''pages/error''
                          (Some ''Access denied. Student account required.''))
      | None \<Rightarrow> Respond (Render 403 ''pages/error''
                           (Some ''Access denied. Student account required.'')))"

definition checkRole :: "string list \<Rightarrow> user option \<Rightarrow> gate" where
  "checkRole roles sess =
     (case sess of
        None \<Rightarrow> Respond (Redirect ''/auth/login'')
      | Some u \<Rightarrow>
          if role u \<in> set roles then Next
          else Respond (Render 403 ''pages/error''
                          (Some ''Access denied. Insufficient privileges.'')))"

text \<open>
  The second middleware module (src/unnamed/part_001, lines 1-9): \<open>isAuthenticated\<close>
  and \<open>requireRole\<close>.
\<close>

definition isAuthenticated :: "user option \<Rightarrow> gate" where
  "isAuthenticated sess =
     (case sess of Some u \<Rightarrow> Next | None \<Rightarrow> Respond (Redirect ''/auth/login''))"

definition requireRole :: "string \<Rightarrow> user option \<Rightarrow> gate" where
  "requireRole r sess =
     (case sess of
        Some u \<Rightarrow> if role u = r then Next else Respond (Send 403 ''Forbidden'')
      | None \<Rightarrow> Respond (Send 403 ''Forbidden''))"

text \<open>
  \<open>router.use(gate)\<close> in front of a handler: the handler runs only when the gate calls
  \<open>next()\<close>; otherwise the gate's response is the answer and the store is untouched.
\<close>

definition routerUse ::
  "(user option \<Rightarrow> gate) \<Rightarrow> (user option \<Rightarrow> 's \<Rightarrow> response \<times> 's) \<Rightarrow> user option \<Rightarrow> 's
     \<Rightarrow> response \<times> 's" where
  "routerUse g handler sess st =
     (case g sess of Next \<Rightarrow> handler sess st | Respond r \<Rightarrow> (r, st))"

text \<open>The HTTP status of a response (200 unless set; a redirect is a 302).\<close>

fun statusCode :: "response \<Rightarrow> nat" where
  "statusCode (Json c p) = c"
| "statusCode (Render c v e) = c"
| "statusCode (Redirect l) = 302"
| "statusCode (Send c t) = c"


section \<open>The mounted routes\<close>

text \<open>
  src/server.js mounts the student, company and admin routers, each behind its role
  middleware (\<open>router.use(isStudent)\<close> and so on).
\<close>

definition studentApplyRoute ::
  "date \<Rightarrow> oid \<Rightarrow> user option \<Rightarrow> oid \<Rightarrow> store \<Rightarrow> response \<times> store" where
  "studentApplyRoute now newId sess jobIdParam st =
     routerUse isStudent (\<lambda>s. applyForJob now newId s jobIdParam) sess st"

definition companyUpdateStatusRoute ::
  "(string \<Rightarrow> date option) \<Rightarrow> user option \<Rightarrow> oid \<Rightarrow> status_body \<Rightarrow> store
     \<Rightarrow> response \<times> store" where
  "companyUpdateStatusRoute mkDate sess applicationId b st =
     routerUse isCompany (\<lambda>s. updateStatus mkDate s applicationId b) sess st"

definition companyDeleteJobRoute :: "user option \<Rightarrow> oid \<Rightarrow> store \<Rightarrow> response \<times> store" where
  "companyDeleteJobRoute sess jobIdParam st =
     routerUse isCompany (\<lambda>s. companyDeleteJob s jobIdParam) sess st"

definition adminDeleteJobRoute :: "user option \<Rightarrow> oid \<Rightarrow> store \<Rightarrow> response \<times> store" where
  "adminDeleteJobRoute sess jobIdParam st =
     routerUse isAdmin (\<lambda>s. adminDeleteJob jobIdParam) sess st"

definition adminDeleteUserRoute ::
  "user option \<Rightarrow> string \<Rightarrow> string option \<Rightarrow> store \<Rightarrow> response \<times> store" where
  "adminDeleteUserRoute sess userId queryRole st =
     routerUse isAdmin (\<lambda>s. adminDeleteUser s userId queryRole) sess st"

section \<open>Sample data\<close>

text \<open>
  A small database used to run the handlers: an admin (1), a student (2) with a resume,
  two companies (10, 11), an active job (20) and a closed job (21) of company 10, and the
  student's application (30) to job 20. Time 1000 lies before the deadline of job 20 and
  after that of job 21.
\<close>

definition sampleAdmin :: user where
  "sampleAdmin = \<lparr> uid = 1, email = ''root@campus.edu'', password = ''$2a$10$adminhash'',
                   role = ''admin'', user_resume = None \<rparr>"

definition sampleStudent :: user where
  "sampleStudent = \<lparr> uid = 2, email = ''asha@campus.edu'', password = ''$2a$10$studenthash'',
                     role = ''student'', user_resume = Some ''/uploads/resumes/2-17.pdf'' \<rparr>"

definition sampleCompany :: user where
  "sampleCompany = \<lparr> uid = 10, email = ''hr@acme.com'', password = ''$2a$10$acmehash'',
                     role = ''company'', user_resume = None \<rparr>"

definition sampleRival :: user where
  "sampleRival = \<lparr> uid = 11, email = ''hr@rival.com'', password = ''$2a$10$rivalhash'',
                   role = ''company'', user_resume = None \<rparr>"

definition sampleJob :: job where
  "sampleJob = \<lparr> job_id = 20, job_companyId = 10, job_status = ''active'',
                 deadline = Some 5000 \<rparr>"

definition sampleClosedJob :: job where
  "sampleClosedJob = \<lparr> job_id = 21, job_companyId = 10, job_status = ''closed'',
                       deadline = Some 500 \<rparr>"

definition sampleApplication :: application where
  "sampleApplication =
     \<lparr> app_id = 30, studentId = 2, jobId = 20, companyId = 10, status = Some ''pending'',
       appliedDate = 900, resume = ''/uploads/resumes/2-17.pdf'', coverLetter = None,
       interviewDate = None, interviewMode = None, interviewLocation = None,
       interviewLink = None \<rparr>"

definition sampleStore :: store where
  "sampleStore = \<lparr> users = [sampleAdmin, sampleStudent, sampleCompany, sampleRival],
                   jobs = [sampleJob, sampleClosedJob],
                   applications = [sampleApplication] \<rparr>"

text \<open>The same database before the student applied.\<close>

definition sampleStoreNoApps :: store where
  "sampleStoreNoApps = sampleStore\<lparr>applications := []\<rparr>"

text \<open>The same database after company 10 closed job 20.\<close>

definition sampleStoreJobClosed :: store where
  "sampleStoreJobClosed = sampleStore\<lparr>jobs := [sampleJob\<lparr>job_status := ''closed''\<rparr>,
                                              sampleClosedJob]\<rparr>"

text \<open>A \<open>Date\<close> constructor that understands one date string.\<close>

definition sampleMkDate :: "string \<Rightarrow> date option" where
  "sampleMkDate s = (if s = ''2030-01-15'' then Some 9000 else None)"

definition sampleCompare :: "string \<Rightarrow> string \<Rightarrow> bool" where
  "sampleCompare p h = (p = ''letmein'' \<and> h = ''$2a$10$adminhash'')"

text \<open>The interview scheduling fields of an application, taken together.\<close>

definition interviewDetails ::
  "application \<Rightarrow> date option \<times> string option \<times> string option \<times> string option" where
  "interviewDetails a = (interviewDate a, interviewMode a, interviewLocation a, interviewLink a)"

text \<open>A status request that also carries interview details.\<close>

definition sampleHireBody :: status_body where
  "sampleHireBody = \<lparr> b_status = Some ''Hired'', b_interviewDate = Some ''2030-01-15'',
                      b_interviewMode = Some ''Online'', b_interviewLocation = None,
                      b_interviewLink = Some ''https://meet.example/acme'' \<rparr>"

text \<open>A login request of the admin with the right email and password and a wrong key.\<close>

definition sampleLoginBody :: login_body where
  "sampleLoginBody = \<lparr> b_email = Some ''root@campus.edu'', b_password = Some ''letmein'',
                       b_role = Some ''admin'', b_adminKey = Some ''guess'' \<rparr>"

text \<open>
  A second admin whose ObjectId has letters among its hexadecimal digits (171 is
  \<open>ab\<close>), and the database with this admin added.
\<close>

definition sampleChief :: user where
  "sampleChief = \<lparr> uid = 171, email = ''chief@campus.edu'', password = ''$2a$10$chiefhash'',
                   role = ''admin'', user_resume = None \<rparr>"

definition sampleChiefStore :: store where
  "sampleChiefStore = sampleStore\<lparr>users := sampleChief # users sampleStore\<rparr>"

section \<open>Facts about the collection queries\<close>

lemma findById_SomeD: "findById f xs i = Some x \<Longrightarrow> f x = i \<and> x \<in> set xs"
  by (auto simp: findById_def find_Some_iff)

lemma findById_None_iff: "findById f xs i = None \<longleftrightarrow> (\<forall>x\<in>set xs. f x \<noteq> i)"
  by (auto simp: findById_def find_None_iff)

lemma findById_deleteMany_None:
  assumes "distinct (map f xs)" and "A \<in> set xs" and "P A"
  shows "findById f (deleteMany P xs) (f A) = None"
proof -
  have "inj_on f (set xs)" using assms(1) by (simp add: distinct_map)
  then have "\<forall>x\<in>set xs. f x = f A \<longrightarrow> x = A"
    using assms(2) by (auto dest: inj_onD)
  then show ?thesis
    using assms(3) by (auto simp: findById_None_iff deleteMany_def)
qed

lemma findById_deleteOne_None:
  "distinct (map f xs) \<Longrightarrow> findById f (deleteOne (\<lambda>x. f x = i) xs) i = None"
proof (induction xs)
  case Nil
  then show ?case by (simp add: findById_def)
next
  case (Cons x xs)
  show ?case
  proof (cases "f x = i")
    case True
    then have "\<forall>y\<in>set xs. f y \<noteq> i" using Cons.prems by (auto simp: image_iff)
    with True show ?thesis by (simp add: findById_None_iff)
  next
    case False
    with Cons show ?thesis by (simp add: findById_def)
  qed
qed

lemma updateOne_absent: "find P xs = None \<Longrightarrow> updateOne P d xs = xs"
  by (induction xs) (auto split: if_splits)

lemma map_updateOne:
  "find P xs = Some x \<Longrightarrow> g d = g x \<Longrightarrow> map g (updateOne P d xs) = map g xs"
  by (induction xs) (auto split: if_splits)

lemma toLowerCase_shortlisted:
  "toLowerCase ''shortlisted'' = ''shortlisted''"
  "toLowerCase ''Shortlisted'' = ''shortlisted''"
  by code_simp+






lemma sample_id_strings:
  "oidToString (Suc 0) = ''000000000000000000000001''"
  "oidToString 171 = ''0000000000000000000000ab''"
  "castObjectId ''00000000000000000000000a'' = Some 10"
  "castObjectId ''0000000000000000000000ab'' = Some 171"
  "castObjectId ''0000000000000000000000AB'' = Some 171"
  by code_simp+

section \<open>Applying: one application per student and job\<close>

lemma applyForJob_unique:
  assumes "uniquePairs (applications st)"
  shows "uniquePairs (applications (snd (applyForJob now newId sess j st)))"
  using assms
  by (auto simp: applyForJob_def uniquePairs_def find_None_iff Let_def
           split: option.splits)

lemma studentApply_unique:
  assumes "uniquePairs (applications st)"
  shows "uniquePairs (applications (snd (studentApply now newId sess j cl st)))"
  using assms
  by (auto simp: studentApply_def uniquePairs_def find_None_iff Let_def
           split: option.splits)

lemma applyForJob_existing:
  assumes "a \<in> set (applications st)" and "studentId a = uid u" and "jobId a = j"
  shows "snd (applyForJob now newId (Some u) j st) = st"
    and "statusCode (fst (applyForJob now newId (Some u) j st)) \<in> {400, 404}"
  using assms
  by (auto simp: applyForJob_def find_None_iff Let_def dest!: findById_SomeD
           split: option.splits)

lemma applyForJob_duplicate:
  assumes "a \<in> set (applications st)" and "studentId a = uid u" and "jobId a = j"
    and "truthy (user_resume u)" and "findById job_id (jobs st) j = Some J"
    and "job_status J = ''active''"
    and "\<not> (case deadline J of None \<Rightarrow> False | Some d \<Rightarrow> d < now)"
  shows "applyForJob now newId (Some u) j st
           = (Json 400 (ErrorBody ''You have already applied to this job''), st)"
  using assms
  by (auto simp: applyForJob_def find_None_iff Let_def dest!: findById_SomeD
           split: option.splits)

lemma studentApply_existing:
  assumes "a \<in> set (applications st)" and "studentId a = uid u" and "jobId a = j"
  shows "snd (studentApply now newId (Some u) j cl st) = st"
    and "findById job_id (jobs st) j \<noteq> None \<Longrightarrow>
         studentApply now newId (Some u) j cl st
           = (Json 400 (SuccessBody False (Some ''Already applied'')), st)"
  using assms
  by (auto simp: studentApply_def find_None_iff Let_def dest!: findById_SomeD
           split: option.splits)

text \<open>
  C1 (as stated): once an Application for (student, job) exists, a second Apply by that
  student for that job fails with DuplicateApplication. The route handler runs its other
  checks first: after company 10 has closed job 20, the student's second Apply to job 20
  is answered with the 404 of an unavailable job, not with the duplicate error.
\<close>

theorem C1_second_apply_closed_job_counterexample:
  "sampleApplication \<in> set (applications sampleStoreJobClosed)
   \<and> studentId sampleApplication = uid sampleStudent
   \<and> jobId sampleApplication = 20
   \<and> applyForJob 1000 31 (Some sampleStudent) 20 sampleStoreJobClosed
       = (Json 404 (ErrorBody ''Job not found or no longer active''), sampleStoreJobClosed)
   \<and> Json 404 (ErrorBody ''Job not found or no longer active'')
       \<noteq> Json 400 (ErrorBody ''You have already applied to this job'')"
  by (simp add: applyForJob_def findById_def truthy_def sampleStoreJobClosed_def
      sampleStore_def sampleJob_def sampleClosedJob_def sampleApplication_def
      sampleStudent_def)

text \<open>
  C1 (amended): at most one Application exists per (student, job) pair: both Apply
  handlers keep the pairs of the collection distinct. If an Application for the pair
  already exists, a second Apply by the same student for the same job fails (status 400
  or 404) and leaves the store as it was; the failure is DuplicateApplication whenever
  the checks that the handler runs before the duplicate check pass (route handler: resume
  on file, job found and active, deadline not passed; controller: job found).
\<close>

theorem C1_one_application_per_pair:
  "(uniquePairs (applications st)
      \<longrightarrow> uniquePairs (applications (snd (applyForJob now newId sess j st)))
          \<and> uniquePairs (applications (snd (studentApply now newId sess j cl st))))
   \<and> (a \<in> set (applications st) \<and> studentId a = uid u \<and> jobId a = j
      \<longrightarrow> snd (applyForJob now newId (Some u) j st) = st
          \<and> statusCode (fst (applyForJob now newId (Some u) j st)) \<in> {400, 404}
          \<and> (truthy (user_resume u) \<and> findById job_id (jobs st) j = Some J
               \<and> job_status J = ''active''
               \<and> \<not> (case deadline J of None \<Rightarrow> False | Some d \<Rightarrow> d < now)
             \<longrightarrow> fst (applyForJob now newId (Some u) j st)
                   = Json 400 (ErrorBody ''You have already applied to this job''))
          \<and> snd (studentApply now newId (Some u) j cl st) = st
          \<and> (findById job_id (jobs st) j \<noteq> None
             \<longrightarrow> fst (studentApply now newId (Some u) j cl st)
                   = Json 400 (SuccessBody False (Some ''Already applied''))))"
proof (intro conjI impI)
  assume "uniquePairs (applications st)"
  then show "uniquePairs (applications (snd (applyForJob now newId sess j st)))"
    by (rule applyForJob_unique)
next
  assume "uniquePairs (applications st)"
  then show "uniquePairs (applications (snd (studentApply now newId sess j cl st)))"
    by (rule studentApply_unique)
next
  assume h: "a \<in> set (applications st) \<and> studentId a = uid u \<and> jobId a = j"
  then show "snd (applyForJob now newId (Some u) j st) = st"
    by (auto intro: applyForJob_existing(1))
next
  assume h: "a \<in> set (applications st) \<and> studentId a = uid u \<and> jobId a = j"
  then show "statusCode (fst (applyForJob now newId (Some u) j st)) \<in> {400, 404}"
    by (intro applyForJob_existing(2)[of a]) simp_all
next
  assume h: "a \<in> set (applications st) \<and> studentId a = uid u \<and> jobId a = j"
  then show "snd (studentApply now newId (Some u) j cl st) = st"
    by (auto intro: studentApply_existing(1))
next
  assume h: "a \<in> set (applications st) \<and> studentId a = uid u \<and> jobId a = j"
    and "truthy (user_resume u) \<and> findById job_id (jobs st) j = Some J
            \<and> job_status J = ''active''
            \<and> \<not> (case deadline J of None \<Rightarrow> False | Some d \<Rightarrow> d < now)"
  then show "fst (applyForJob now newId (Some u) j st)
               = Json 400 (ErrorBody ''You have already applied to this job'')"
    using applyForJob_duplicate[of a st u j J now newId] by simp
next
  assume h: "a \<in> set (applications st) \<and> studentId a = uid u \<and> jobId a = j"
    and "findById job_id (jobs st) j \<noteq> None"
  then show "fst (studentApply now newId (Some u) j cl st)
               = Json 400 (SuccessBody False (Some ''Already applied''))"
    using studentApply_existing(2)[of a st u j now newId cl] by simp
qed

theorem C1_one_application_per_pair_witness:
  "sampleApplication \<in> set (applications sampleStore)
   \<and> studentId sampleApplication = uid sampleStudent
   \<and> jobId sampleApplication = 20
   \<and> uniquePairs (applications sampleStore)
   \<and> applyForJob 1000 31 (Some sampleStudent) 20 sampleStore
       = (Json 400 (ErrorBody ''You have already applied to this job''), sampleStore)
   \<and> studentApply 1000 31 (Some sampleStudent) 20 None sampleStore
       = (Json 400 (SuccessBody False (Some ''Already applied'')), sampleStore)
   \<and> uniquePairs (applications (snd (applyForJob 1000 31 (Some sampleStudent) 20
                                        sampleStore)))"
proof -
  have h1: "sampleApplication \<in> set (applications sampleStore)"
    by (simp add: sampleStore_def)
  have h2: "studentId sampleApplication = uid sampleStudent"
    by (simp add: sampleApplication_def sampleStudent_def)
  have h3: "jobId sampleApplication = 20"
    by (simp add: sampleApplication_def)
  have h4: "truthy (user_resume sampleStudent)"
    by (simp add: truthy_def sampleStudent_def)
  have h5: "findById job_id (jobs sampleStore) 20 = Some sampleJob"
    by (simp add: findById_def sampleStore_def sampleJob_def)
  have h6: "job_status sampleJob = ''active''
            \<and> \<not> (case deadline sampleJob of None \<Rightarrow> False | Some d \<Rightarrow> d < 1000)"
    by (simp add: sampleJob_def)
  have h7: "uniquePairs (applications sampleStore)"
    by (simp add: uniquePairs_def sampleStore_def)
  note fact = C1_one_application_per_pair [where st = sampleStore and a = sampleApplication
      and u = sampleStudent and j = 20 and J = sampleJob and now = 1000
      and newId = 31 and cl = None and sess = "Some sampleStudent"]
  have "applyForJob 1000 31 (Some sampleStudent) 20 sampleStore
          = (Json 400 (ErrorBody ''You have already applied to this job''), sampleStore)"
    using fact h1 h2 h3 h4 h5 h6 by (simp add: prod_eq_iff)
  moreover have "studentApply 1000 31 (Some sampleStudent) 20 None sampleStore
          = (Json 400 (SuccessBody False (Some ''Already applied'')), sampleStore)"
    using fact h1 h2 h3 h5 by (simp add: prod_eq_iff)
  moreover have "uniquePairs (applications (snd (applyForJob 1000 31 (Some sampleStudent) 20
                                        sampleStore)))"
    using fact h7 by simp
  ultimately show ?thesis using h1 h2 h3 h7 by simp
qed

section \<open>Applying: order of the checks, and the created application\<close>

text \<open>
  C2 (as stated): for every job whose deadline is before now, Apply fails with
  DeadlinePassed whatever the job's status, also when it is closed. Job 21 is closed and
  its deadline (500) lies before now (1000): the handler tests the status first and
  answers with the 404 of an unavailable job.
\<close>

theorem C2_closed_job_past_deadline_counterexample:
  "findById job_id (jobs sampleStore) 21 = Some sampleClosedJob
   \<and> job_status sampleClosedJob = ''closed''
   \<and> deadline sampleClosedJob = Some 500 \<and> (500 :: int) < 1000
   \<and> applyForJob 1000 31 (Some sampleStudent) 21 sampleStore
       = (Json 404 (ErrorBody ''Job not found or no longer active''), sampleStore)
   \<and> Json 404 (ErrorBody ''Job not found or no longer active'')
       \<noteq> Json 400 (ErrorBody ''Application deadline has passed'')"
  by (simp add: applyForJob_def findById_def truthy_def sampleStore_def sampleJob_def
      sampleClosedJob_def sampleStudent_def)

text \<open>
  C2 (amended): for every logged-in student with a resume on file and every existing job
  J with J.deadline < now, Apply creates nothing; it fails with DeadlinePassed when
  J.status = active, and with JobUnavailable (the 404 of a job that is not found or not
  active) when J.status is anything else, closed in particular.
\<close>

theorem C2_deadline_passed_after_status_check:
  assumes "truthy (user_resume u)"
    and "findById job_id (jobs st) j = Some J"
    and "deadline J = Some d" and "d < now"
  shows "applyForJob now newId (Some u) j st
           = (if job_status J = ''active''
              then Json 400 (ErrorBody ''Application deadline has passed'')
              else Json 404 (ErrorBody ''Job not found or no longer active''), st)"
  using assms by (simp add: applyForJob_def)

theorem C2_deadline_passed_after_status_check_witness:
  "truthy (user_resume sampleStudent)
   \<and> findById job_id (jobs sampleStoreNoApps) 20 = Some sampleJob
   \<and> deadline sampleJob = Some 5000 \<and> (5000 :: int) < 6000
   \<and> job_status sampleJob = ''active''
   \<and> applyForJob 6000 31 (Some sampleStudent) 20 sampleStoreNoApps
       = (Json 400 (ErrorBody ''Application deadline has passed''), sampleStoreNoApps)"
proof -
  have h1: "truthy (user_resume sampleStudent)"
    by (simp add: truthy_def sampleStudent_def)
  have h2: "findById job_id (jobs sampleStoreNoApps) 20 = Some sampleJob"
    by (simp add: findById_def sampleStoreNoApps_def sampleStore_def sampleJob_def)
  have h3: "deadline sampleJob = Some 5000"
    by (simp add: sampleJob_def)
  have h4: "(5000 :: int) < 6000" by simp
  have h5: "job_status sampleJob = ''active''"
    by (simp add: sampleJob_def)
  show ?thesis
    using C2_deadline_passed_after_status_check [OF h1 h2 h3 h4, of 31] h1 h2 h3 h5
    by simp
qed

lemma updateResume_applications:
  "applications (snd (snd (updateResume xhr mvOk filename sess mimetype st))) = applications st"
  by (simp add: updateResume_def Let_def split: option.splits)

text \<open>
  C7: a student with a resume on file applies to an existing job that is active and whose
  deadline lies in the future, and no Application for the pair exists. The handler
  answers with success and appends one Application: status pending, applied date now,
  and as resume the resume reference that the session user carries at that moment. The
  Application holds the value itself: a later change of the student's resume (the resume
  upload handler, the only one that writes it) leaves every Application as it is. Behind
  the student router's gate the same holds for a session user whose role is student.
\<close>

theorem C7_apply_creates_pending_snapshot:
  assumes "user_resume u = Some r" and "r \<noteq> []"
    and "findById job_id (jobs st) j = Some J"
    and "job_status J = ''active''"
    and "deadline J = Some d" and "now < d"
    and "\<forall>a \<in> set (applications st). \<not> (studentId a = uid u \<and> jobId a = j)"
  shows "applyForJob now newId (Some u) j st
           = (Json 200 (MessageBody ''Application submitted successfully''),
              st\<lparr>applications := applications st @
                   [\<lparr> app_id = newId, studentId = uid u, jobId = j,
                      companyId = job_companyId J, status = Some ''pending'',
                      appliedDate = now, resume = r, coverLetter = None,
                      interviewDate = None, interviewMode = None,
                      interviewLocation = None, interviewLink = None \<rparr>]\<rparr>)
       \<and> (role u = ''student'' \<longrightarrow>
            studentApplyRoute now newId (Some u) j st = applyForJob now newId (Some u) j st)
       \<and> applications (snd (snd (updateResume xhr mvOk filename sess2 mimetype
                                   (snd (applyForJob now newId (Some u) j st)))))
           = applications (snd (applyForJob now newId (Some u) j st))"
proof (intro conjI impI)
  have jid: "job_id J = j" using assms(3) by (auto dest: findById_SomeD)
  have "find (\<lambda>a. studentId a = uid u \<and> jobId a = job_id J) (applications st) = None"
    using assms(7) jid by (simp add: find_None_iff)
  then show "applyForJob now newId (Some u) j st
           = (Json 200 (MessageBody ''Application submitted successfully''),
              st\<lparr>applications := applications st @
                   [\<lparr> app_id = newId, studentId = uid u, jobId = j,
                      companyId = job_companyId J, status = Some ''pending'',
                      appliedDate = now, resume = r, coverLetter = None,
                      interviewDate = None, interviewMode = None,
                      interviewLocation = None, interviewLink = None \<rparr>]\<rparr>)"
    using assms(1-6) jid
    by (simp add: applyForJob_def truthy_def validApplication_def Let_def)
next
  assume "role u = ''student''"
  then show "studentApplyRoute now newId (Some u) j st = applyForJob now newId (Some u) j st"
    by (simp add: studentApplyRoute_def routerUse_def isStudent_def)
next
  show "applications (snd (snd (updateResume xhr mvOk filename sess2 mimetype
                                   (snd (applyForJob now newId (Some u) j st)))))
           = applications (snd (applyForJob now newId (Some u) j st))"
    by (rule updateResume_applications)
qed

theorem C7_apply_creates_pending_snapshot_witness:
  "user_resume sampleStudent = Some ''/uploads/resumes/2-17.pdf''
   \<and> findById job_id (jobs sampleStoreNoApps) 20 = Some sampleJob
   \<and> job_status sampleJob = ''active'' \<and> deadline sampleJob = Some 5000
   \<and> (1000 :: int) < 5000 \<and> applications sampleStoreNoApps = []
   \<and> studentApplyRoute 1000 31 (Some sampleStudent) 20 sampleStoreNoApps
       = (Json 200 (MessageBody ''Application submitted successfully''),
          sampleStoreNoApps\<lparr>applications :=
             [\<lparr> app_id = 31, studentId = 2, jobId = 20, companyId = 10,
                status = Some ''pending'', appliedDate = 1000,
                resume = ''/uploads/resumes/2-17.pdf'', coverLetter = None,
                interviewDate = None, interviewMode = None,
                interviewLocation = None, interviewLink = None \<rparr>]\<rparr>)"
proof -
  have h1: "user_resume sampleStudent = Some ''/uploads/resumes/2-17.pdf''"
    by (simp add: sampleStudent_def)
  have h2: "''/uploads/resumes/2-17.pdf'' \<noteq> []" by simp
  have h3: "findById job_id (jobs sampleStoreNoApps) 20 = Some sampleJob"
    by (simp add: findById_def sampleStoreNoApps_def sampleStore_def sampleJob_def)
  have h4: "job_status sampleJob = ''active''" by (simp add: sampleJob_def)
  have h5: "deadline sampleJob = Some 5000" by (simp add: sampleJob_def)
  have h6: "(1000 :: int) < 5000" by simp
  have h7: "\<forall>a \<in> set (applications sampleStoreNoApps).
              \<not> (studentId a = uid sampleStudent \<and> jobId a = 20)"
    by (simp add: sampleStoreNoApps_def)
  have h8: "role sampleStudent = ''student'' \<and> uid sampleStudent = 2
            \<and> job_companyId sampleJob = 10 \<and> applications sampleStoreNoApps = []"
    by (simp add: sampleStudent_def sampleJob_def sampleStoreNoApps_def)
  show ?thesis
    using C7_apply_creates_pending_snapshot [OF h1 h2 h3 h4 h5 h6 h7, of 31] h1 h3 h4 h5 h8
    by simp
qed

section \<open>Company: who may update an application\<close>

text \<open>
  C3 (as stated): a company other than the application's gets NotAuthorized, a
  non-existent applicationId gets NotFound, and the two are distinct outcomes. On the
  mounted route the rival company (11), asking for application 30 of company 10's job,
  receives exactly the response that the non-existent application 31 produces: the 404
  \<open>Application not found\<close>.
\<close>

theorem C3_route_same_response_counterexample:
  "findById app_id (applications sampleStore) 30 = Some sampleApplication
   \<and> findById job_id (jobs sampleStore) (jobId sampleApplication) = Some sampleJob
   \<and> job_companyId sampleJob \<noteq> uid sampleRival
   \<and> findById app_id (applications sampleStore) 31 = None
   \<and> companyUpdateStatusRoute sampleMkDate (Some sampleRival) 30 sampleHireBody sampleStore
       = (Json 404 (ErrorBody ''Application not found''), sampleStore)
   \<and> companyUpdateStatusRoute sampleMkDate (Some sampleRival) 31 sampleHireBody sampleStore
       = (Json 404 (ErrorBody ''Application not found''), sampleStore)"
  by (simp add: companyUpdateStatusRoute_def routerUse_def isCompany_def updateStatus_def
      findById_def sampleStore_def sampleApplication_def sampleJob_def sampleClosedJob_def
      sampleRival_def)

text \<open>
  C3 (amended): for every existing Application A and every request body (every status
  value), UpdateStatus by a company other than the one A belongs to leaves the store, and
  so A, unchanged, and so does UpdateStatus on a non-existent applicationId. In the route
  handler the company is derived through A's Job, and both failures are the same 404
  \<open>Application not found\<close>; there is no separate NotAuthorized outcome. In the
  controller \<open>updateApplicationStatus\<close>, which compares A's own companyId, the
  mismatch is answered 403 \<open>Not authorized\<close> and the missing application 404: two
  distinct outcomes.
\<close>

theorem C3_update_status_failures:
  "(findById app_id (applications st) i = Some A
      \<and> findById job_id (jobs st) (jobId A) = Some J \<and> job_companyId J \<noteq> uid u
     \<longrightarrow> updateStatus mkDate (Some u) i b st
           = (Json 404 (ErrorBody ''Application not found''), st))
   \<and> (findById app_id (applications st) i = None
     \<longrightarrow> updateStatus mkDate sess i b st
           = (Json 404 (ErrorBody ''Application not found''), st))
   \<and> (findById app_id (applications st) i = Some A \<and> companyId A \<noteq> uid u
     \<longrightarrow> updateApplicationStatus (Some u) i statusIn st
           = (Json 403 (SuccessBody False (Some ''Not authorized'')), st))
   \<and> (findById app_id (applications st) i = None
     \<longrightarrow> updateApplicationStatus sess i statusIn st
           = (Json 404 (SuccessBody False (Some ''Application not found'')), st))"
  by (simp add: updateStatus_def updateApplicationStatus_def)

theorem C3_update_status_failures_witness:
  "findById app_id (applications sampleStore) 30 = Some sampleApplication
   \<and> findById job_id (jobs sampleStore) (jobId sampleApplication) = Some sampleJob
   \<and> job_companyId sampleJob \<noteq> uid sampleRival
   \<and> companyId sampleApplication \<noteq> uid sampleRival
   \<and> updateStatus sampleMkDate (Some sampleRival) 30 sampleHireBody sampleStore
       = (Json 404 (ErrorBody ''Application not found''), sampleStore)
   \<and> updateApplicationStatus (Some sampleRival) 30 (Some ''hired'') sampleStore
       = (Json 403 (SuccessBody False (Some ''Not authorized'')), sampleStore)
   \<and> findById app_id (applications sampleStoreNoApps) 30 = None
   \<and> updateStatus sampleMkDate (Some sampleRival) 30 sampleHireBody sampleStoreNoApps
       = (Json 404 (ErrorBody ''Application not found''), sampleStoreNoApps)
   \<and> updateApplicationStatus (Some sampleRival) 30 (Some ''hired'') sampleStoreNoApps
       = (Json 404 (SuccessBody False (Some ''Application not found'')), sampleStoreNoApps)"
proof -
  have h1: "findById app_id (applications sampleStore) 30 = Some sampleApplication"
    by (simp add: findById_def sampleStore_def sampleApplication_def)
  have h2: "findById job_id (jobs sampleStore) (jobId sampleApplication) = Some sampleJob"
    by (simp add: findById_def sampleStore_def sampleApplication_def sampleJob_def)
  have h3: "job_companyId sampleJob \<noteq> uid sampleRival"
    by (simp add: sampleJob_def sampleRival_def)
  have h4: "companyId sampleApplication \<noteq> uid sampleRival"
    by (simp add: sampleApplication_def sampleRival_def)
  have h5: "findById app_id (applications sampleStoreNoApps) 30 = None"
    by (simp add: findById_def sampleStoreNoApps_def)
  note present = C3_update_status_failures [where st = sampleStore and i = 30
      and A = sampleApplication and J = sampleJob and u = sampleRival
      and mkDate = sampleMkDate and b = sampleHireBody and statusIn = "Some ''hired''"]
  note absent = C3_update_status_failures [where st = sampleStoreNoApps and i = 30
      and sess = "Some sampleRival" and mkDate = sampleMkDate and b = sampleHireBody
      and statusIn = "Some ''hired''"]
  show ?thesis
    using present absent h1 h2 h3 h4 h5 by simp
qed

section \<open>Company: interview details change only on shortlisting\<close>

lemma setInterviewFields_app_id:
  "setInterviewFields mkDate b a = Some a' \<Longrightarrow> app_id a' = app_id a"
  by (auto simp: setInterviewFields_def Let_def split: option.splits if_splits)

lemma saveApplication_map:
  assumes "findById app_id (applications st) i = Some A"
    and "\<And>a. doc = Some a \<Longrightarrow> app_id a = i \<and> g a = g A"
  shows "map g (applications (snd (saveApplication doc ok failed st))) = map g (applications st)"
proof (cases doc)
  case None
  then show ?thesis by (simp add: saveApplication_def)
next
  case (Some a)
  with assms(2) have "app_id a = i" "g a = g A" by auto
  moreover have "find (\<lambda>x. app_id x = i) (applications st) = Some A"
    using assms(1) by (simp add: findById_def)
  ultimately show ?thesis
    using Some by (simp add: saveApplication_def map_updateOne)
qed

text \<open>
  A projection \<open>g\<close> of the applications that the status assignment does not touch, and
  that the interview assignments leave alone for this request, reads the same before and
  after the handler, whatever the handler answers.
\<close>

lemma updateStatus_map:
  assumes st: "\<And>A s. g (A\<lparr>status := Some s\<rparr>) = g A"
    and iv: "\<And>a a' s. b_status b = Some s \<Longrightarrow> s = ''shortlisted'' \<or> s = ''Shortlisted'' \<Longrightarrow>
               setInterviewFields mkDate b a = Some a' \<Longrightarrow> g a' = g a"
  shows "map g (applications (snd (updateStatus mkDate sess i b st))) = map g (applications st)"
proof (cases "findById app_id (applications st) i")
  case None
  then show ?thesis by (simp add: updateStatus_def)
next
  case found: (Some A)
  then have idA: "app_id A = i" by (auto dest: findById_SomeD)
  show ?thesis
  proof (cases "b_status b")
    case None
    with found show ?thesis by (simp add: updateStatus_def split: option.splits)
  next
    case (Some s)
    let ?a1 = "A\<lparr>status := Some (toLowerCase s)\<rparr>"
    let ?a2 = "if s = ''shortlisted'' \<or> s = ''Shortlisted''
               then setInterviewFields mkDate b ?a1 else Some ?a1"
    have "app_id a = i \<and> g a = g A" if "?a2 = Some a" for a
    proof (cases "s = ''shortlisted'' \<or> s = ''Shortlisted''")
      case True
      with that have sf: "setInterviewFields mkDate b ?a1 = Some a" by simp
      have "g a = g ?a1" using iv[OF Some True sf] .
      moreover have "app_id a = app_id ?a1" using sf by (rule setInterviewFields_app_id)
      ultimately show ?thesis using st idA by simp
    next
      case False
      with that have "a = ?a1" by simp
      then show ?thesis using st idA by simp
    qed
    then have "map g (applications (snd (saveApplication ?a2 ok failed st)))
                 = map g (applications st)" for ok failed
      using found by (intro saveApplication_map[of st i A]) auto
    then show ?thesis
      using Some found by (simp add: updateStatus_def Let_def split: option.splits)
  qed
qed

lemma not_shortlisted:
  "toLowerCase s \<noteq> ''shortlisted'' \<Longrightarrow> \<not> (s = ''shortlisted'' \<or> s = ''Shortlisted'')"
  using toLowerCase_shortlisted by auto

lemma updateStatus_owner:
  assumes "findById app_id (applications st) i = Some A"
    and "findById job_id (jobs st) (jobId A) = Some J"
    and "job_companyId J = uid u"
    and "b_status b = Some s"
    and "toLowerCase s \<noteq> ''shortlisted''"
    and "validApplication (A\<lparr>status := Some (toLowerCase s)\<rparr>)"
  shows "updateStatus mkDate (Some u) i b st
           = (Json 200 (MessageBody ''Application status updated successfully''),
              st\<lparr>applications := updateOne (\<lambda>x. app_id x = i)
                                   (A\<lparr>status := Some (toLowerCase s)\<rparr>) (applications st)\<rparr>)"
proof -
  have "app_id A = i" using assms(1) by (auto dest: findById_SomeD)
  then show ?thesis
    using assms not_shortlisted[OF assms(5)]
    by (simp add: updateStatus_def saveApplication_def Let_def)
qed

text \<open>
  C10: an UpdateStatus call whose new status (the lower-cased request status) is not
  shortlisted leaves the interview date, mode, location and link of every Application
  as they were, whatever interview fields the request carries; for the owning company and
  a valid status the call succeeds and changes the status field alone. So the interview
  fields change only when the new status is shortlisted, and even then a field that the
  request does not supply (absent or empty) keeps its value.
\<close>

theorem C10_interview_fields_only_on_shortlisting:
  "(b_status b = Some s \<and> toLowerCase s \<noteq> ''shortlisted''
      \<longrightarrow> map interviewDetails (applications (snd (updateStatus mkDate sess i b st)))
            = map interviewDetails (applications st))
   \<and> (findById app_id (applications st) i = Some A
        \<and> findById job_id (jobs st) (jobId A) = Some J \<and> job_companyId J = uid u
        \<and> b_status b = Some s \<and> toLowerCase s \<noteq> ''shortlisted''
        \<and> validApplication (A\<lparr>status := Some (toLowerCase s)\<rparr>)
      \<longrightarrow> updateStatus mkDate (Some u) i b st
            = (Json 200 (MessageBody ''Application status updated successfully''),
               st\<lparr>applications := updateOne (\<lambda>x. app_id x = i)
                                    (A\<lparr>status := Some (toLowerCase s)\<rparr>) (applications st)\<rparr>))
   \<and> (\<not> truthy (b_interviewDate b)
      \<longrightarrow> map interviewDate (applications (snd (updateStatus mkDate sess i b st)))
            = map interviewDate (applications st))
   \<and> (\<not> truthy (b_interviewMode b)
      \<longrightarrow> map interviewMode (applications (snd (updateStatus mkDate sess i b st)))
            = map interviewMode (applications st))
   \<and> (\<not> truthy (b_interviewLocation b)
      \<longrightarrow> map interviewLocation (applications (snd (updateStatus mkDate sess i b st)))
            = map interviewLocation (applications st))
   \<and> (\<not> truthy (b_interviewLink b)
      \<longrightarrow> map interviewLink (applications (snd (updateStatus mkDate sess i b st)))
            = map interviewLink (applications st))"
proof (intro conjI impI)
  assume "b_status b = Some s \<and> toLowerCase s \<noteq> ''shortlisted''"
  then show "map interviewDetails (applications (snd (updateStatus mkDate sess i b st)))
            = map interviewDetails (applications st)"
    using not_shortlisted[of s]
    by (intro updateStatus_map) (auto simp: interviewDetails_def)
next
  assume "findById app_id (applications st) i = Some A
        \<and> findById job_id (jobs st) (jobId A) = Some J \<and> job_companyId J = uid u
        \<and> b_status b = Some s \<and> toLowerCase s \<noteq> ''shortlisted''
        \<and> validApplication (A\<lparr>status := Some (toLowerCase s)\<rparr>)"
  then show "updateStatus mkDate (Some u) i b st
            = (Json 200 (MessageBody ''Application status updated successfully''),
               st\<lparr>applications := updateOne (\<lambda>x. app_id x = i)
                                    (A\<lparr>status := Some (toLowerCase s)\<rparr>) (applications st)\<rparr>)"
    using updateStatus_owner[of st i A J u b s mkDate] by blast
next
  assume "\<not> truthy (b_interviewDate b)"
  then show "map interviewDate (applications (snd (updateStatus mkDate sess i b st)))
            = map interviewDate (applications st)"
    by (intro updateStatus_map)
       (auto simp: setInterviewFields_def truthy_def Let_def split: option.splits if_splits)
next
  assume "\<not> truthy (b_interviewMode b)"
  then show "map interviewMode (applications (snd (updateStatus mkDate sess i b st)))
            = map interviewMode (applications st)"
    by (intro updateStatus_map)
       (auto simp: setInterviewFields_def Let_def split: option.splits if_splits)
next
  assume "\<not> truthy (b_interviewLocation b)"
  then show "map interviewLocation (applications (snd (updateStatus mkDate sess i b st)))
            = map interviewLocation (applications st)"
    by (intro updateStatus_map)
       (auto simp: setInterviewFields_def Let_def split: option.splits if_splits)
next
  assume "\<not> truthy (b_interviewLink b)"
  then show "map interviewLink (applications (snd (updateStatus mkDate sess i b st)))
            = map interviewLink (applications st)"
    by (intro updateStatus_map)
       (auto simp: setInterviewFields_def Let_def split: option.splits if_splits)
qed

lemma toLowerCase_Hired: "toLowerCase ''Hired'' = ''hired''"
  by code_simp

theorem C10_interview_fields_only_on_shortlisting_witness:
  "b_status sampleHireBody = Some ''Hired'' \<and> toLowerCase ''Hired'' = ''hired''
   \<and> truthy (b_interviewDate sampleHireBody) \<and> truthy (b_interviewMode sampleHireBody)
   \<and> truthy (b_interviewLink sampleHireBody) \<and> \<not> truthy (b_interviewLocation sampleHireBody)
   \<and> updateStatus sampleMkDate (Some sampleCompany) 30 sampleHireBody sampleStore
       = (Json 200 (MessageBody ''Application status updated successfully''),
          sampleStore\<lparr>applications := [sampleApplication\<lparr>status := Some ''hired''\<rparr>]\<rparr>)
   \<and> map interviewDetails
         (applications (snd (updateStatus sampleMkDate (Some sampleCompany) 30 sampleHireBody
                               sampleStore)))
       = [(None, None, None, None)]
   \<and> map interviewLocation
         (applications (snd (updateStatus sampleMkDate (Some sampleCompany) 30 sampleHireBody
                               sampleStore)))
       = [None]"
proof -
  have h1: "findById app_id (applications sampleStore) 30 = Some sampleApplication"
    by (simp add: findById_def sampleStore_def sampleApplication_def)
  have h2: "findById job_id (jobs sampleStore) (jobId sampleApplication) = Some sampleJob"
    by (simp add: findById_def sampleStore_def sampleApplication_def sampleJob_def)
  have h3: "job_companyId sampleJob = uid sampleCompany"
    by (simp add: sampleJob_def sampleCompany_def)
  have h4: "b_status sampleHireBody = Some ''Hired''"
    by (simp add: sampleHireBody_def)
  have h5: "toLowerCase ''Hired'' \<noteq> ''shortlisted''"
    by (simp add: toLowerCase_Hired)
  have h6: "validApplication (sampleApplication\<lparr>status := Some (toLowerCase ''Hired'')\<rparr>)"
    by (simp add: toLowerCase_Hired validApplication_def sampleApplication_def)
  have h7: "truthy (b_interviewDate sampleHireBody) \<and> truthy (b_interviewMode sampleHireBody)
            \<and> truthy (b_interviewLink sampleHireBody)
            \<and> \<not> truthy (b_interviewLocation sampleHireBody)"
    by (simp add: truthy_def sampleHireBody_def)
  have h8: "map interviewDetails (applications sampleStore) = [(None, None, None, None)]
            \<and> map interviewLocation (applications sampleStore) = [None]
            \<and> applications sampleStore = [sampleApplication] \<and> app_id sampleApplication = 30"
    by (simp add: interviewDetails_def sampleStore_def sampleApplication_def)
  note fact = C10_interview_fields_only_on_shortlisting [where b = sampleHireBody
      and s = "''Hired''" and mkDate = sampleMkDate and sess = "Some sampleCompany" and i = 30
      and st = sampleStore and A = sampleApplication and J = sampleJob and u = sampleCompany]
  show ?thesis
    using fact h1 h2 h3 h4 h5 h6 h7 h8
    by (simp add: toLowerCase_Hired interviewDetails_def sampleApplication_def)
qed

section \<open>Cascading deletes\<close>

text \<open>
  C4: deleting a Job j removes every Application that references it, for the admin
  delete and for the delete by the owning company (which succeeds for a company that owns
  a job with this id): afterwards no Application in the store has jobId j, and looking up
  an Application A that referenced j by its id finds nothing (ids are unique in a
  collection). The job document itself is gone as well.
\<close>

theorem C4_job_delete_cascades:
  assumes "A \<in> set (applications st)" and "jobId A = j"
    and "distinct (map app_id (applications st))"
  shows "fst (adminDeleteJob j st) = Json 200 (MessageBody ''Job deleted successfully'')
       \<and> findById app_id (applications (snd (adminDeleteJob j st))) (app_id A) = None
       \<and> (\<forall>a \<in> set (applications (snd (adminDeleteJob j st))). jobId a \<noteq> j)
       \<and> (distinct (map job_id (jobs st))
            \<longrightarrow> findById job_id (jobs (snd (adminDeleteJob j st))) j = None)
       \<and> (J \<in> set (jobs st) \<and> job_id J = j \<and> job_companyId J = uid u \<longrightarrow>
            fst (companyDeleteJob (Some u) j st)
              = Json 200 (MessageBody ''Job deleted successfully'')
            \<and> findById app_id (applications (snd (companyDeleteJob (Some u) j st))) (app_id A)
                = None
            \<and> (\<forall>a \<in> set (applications (snd (companyDeleteJob (Some u) j st))). jobId a \<noteq> j)
            \<and> (distinct (map job_id (jobs st))
                 \<longrightarrow> findById job_id (jobs (snd (companyDeleteJob (Some u) j st))) j = None))
       \<and> (role u = ''company''
            \<longrightarrow> companyDeleteJobRoute (Some u) j st = companyDeleteJob (Some u) j st)
       \<and> (role adm = ''admin''
            \<longrightarrow> adminDeleteJobRoute (Some adm) j st = adminDeleteJob j st)"
proof -
  let ?apps' = "deleteMany (\<lambda>a. jobId a = j) (applications st)"
  let ?jobs' = "deleteOne (\<lambda>x. job_id x = j) (jobs st)"
  have gone: "findById app_id ?apps' (app_id A) = None"
    using assms by (intro findById_deleteMany_None) simp_all
  have none: "\<forall>a \<in> set ?apps'. jobId a \<noteq> j"
    by (simp add: deleteMany_def)
  have job: "distinct (map job_id (jobs st)) \<longrightarrow> findById job_id ?jobs' j = None"
    by (simp add: findById_deleteOne_None)
  have admin: "adminDeleteJob j st
                 = (Json 200 (MessageBody ''Job deleted successfully''),
                    st\<lparr>applications := ?apps', jobs := ?jobs'\<rparr>)"
    by (simp add: adminDeleteJob_def)
  have company: "companyDeleteJob (Some u) j st
                   = (Json 200 (MessageBody ''Job deleted successfully''),
                      st\<lparr>applications := ?apps', jobs := ?jobs'\<rparr>)"
    if "J \<in> set (jobs st) \<and> job_id J = j \<and> job_companyId J = uid u"
  proof -
    have "find (\<lambda>x. job_id x = j \<and> job_companyId x = uid u) (jobs st) \<noteq> None"
      using that by (auto simp: find_None_iff)
    then show ?thesis by (auto simp: companyDeleteJob_def)
  qed
  have routes: "(role u = ''company''
            \<longrightarrow> companyDeleteJobRoute (Some u) j st = companyDeleteJob (Some u) j st)
       \<and> (role adm = ''admin''
            \<longrightarrow> adminDeleteJobRoute (Some adm) j st = adminDeleteJob j st)"
    by (simp add: companyDeleteJobRoute_def adminDeleteJobRoute_def routerUse_def
        isCompany_def isAdmin_def)
  show ?thesis
    using gone none job routes by (simp add: admin company)
qed

theorem C4_job_delete_cascades_witness:
  "sampleApplication \<in> set (applications sampleStore) \<and> jobId sampleApplication = 20
   \<and> app_id sampleApplication = 30
   \<and> distinct (map app_id (applications sampleStore))
   \<and> sampleJob \<in> set (jobs sampleStore) \<and> job_id sampleJob = 20
   \<and> job_companyId sampleJob = uid sampleCompany
   \<and> findById app_id (applications (snd (adminDeleteJob 20 sampleStore))) 30 = None
   \<and> fst (companyDeleteJob (Some sampleCompany) 20 sampleStore)
       = Json 200 (MessageBody ''Job deleted successfully'')
   \<and> findById app_id
        (applications (snd (companyDeleteJobRoute (Some sampleCompany) 20 sampleStore))) 30
       = None
   \<and> findById app_id
        (applications (snd (adminDeleteJobRoute (Some sampleAdmin) 20 sampleStore))) 30
       = None"
proof -
  have h1: "sampleApplication \<in> set (applications sampleStore)"
    by (simp add: sampleStore_def)
  have h2: "jobId sampleApplication = 20"
    by (simp add: sampleApplication_def)
  have h3: "distinct (map app_id (applications sampleStore))"
    by (simp add: sampleStore_def)
  have h4: "sampleJob \<in> set (jobs sampleStore) \<and> job_id sampleJob = 20
            \<and> job_companyId sampleJob = uid sampleCompany"
    by (simp add: sampleStore_def sampleJob_def sampleCompany_def)
  have h5: "app_id sampleApplication = 30"
    by (simp add: sampleApplication_def)
  have h6: "role sampleCompany = ''company'' \<and> role sampleAdmin = ''admin''"
    by (simp add: sampleCompany_def sampleAdmin_def)
  show ?thesis
    using C4_job_delete_cascades [OF h1 h2 h3, of sampleJob sampleCompany sampleAdmin]
      h1 h2 h3 h4 h5 h6
    by simp
qed





section \<open>Deleting one's own admin account\<close>

text \<open>
  A delete-user request that names the session user by the string of the session id, its
  24 digits in lower case, is answered with status 400 and the store is returned as it
  was, for every \<open>role\<close> query parameter.
\<close>

lemma adminDeleteUser_own_id_string:
  "adminDeleteUser (Some u) (oidToString (uid u)) queryRole st
     = (Json 400 (ErrorBody ''You cannot delete your own account''), st)"
  by (simp add: adminDeleteUser_def)

text \<open>
  C9: for every admin session a delete-user request whose target is the admin's own
  account is to be rejected with status 400, no record being removed; the handler's
  comment says \<open>Prevent admin from deleting themselves\<close>. The guard compares the
  request's id string with the string of the session id, and the delete that follows
  casts the request's string to an ObjectId. The admin with id
  \<open>0000000000000000000000ab\<close> who sends this very string is rejected with 400; sending
  the same id in upper case, \<open>0000000000000000000000AB\<close>, passes the guard, casts to the
  admin's own ObjectId, and the admin's account is removed with the answer 200.
\<close>

theorem C9_own_id_in_upper_case_is_deleted:
  "role sampleChief = ''admin'' \<and> sampleChief \<in> set (users sampleChiefStore)
   \<and> oidToString (uid sampleChief) = ''0000000000000000000000ab''
   \<and> castObjectId ''0000000000000000000000AB'' = Some (uid sampleChief)
   \<and> adminDeleteUserRoute (Some sampleChief) ''0000000000000000000000ab'' None
        sampleChiefStore
       = (Json 400 (ErrorBody ''You cannot delete your own account''), sampleChiefStore)
   \<and> adminDeleteUserRoute (Some sampleChief) ''0000000000000000000000AB'' None
        sampleChiefStore
       = (Json 200 (MessageBody ''User deleted successfully''),
          sampleChiefStore\<lparr>users := [sampleAdmin, sampleStudent, sampleCompany,
                                     sampleRival]\<rparr>)
   \<and> findById uid
        (users (snd (adminDeleteUserRoute (Some sampleChief) ''0000000000000000000000AB'' None
                       sampleChiefStore))) (uid sampleChief) = None"
  by (simp add: adminDeleteUserRoute_def routerUse_def isAdmin_def adminDeleteUser_def
      findById_def sample_id_strings sampleChiefStore_def sampleChief_def sampleStore_def
      sampleAdmin_def sampleStudent_def sampleCompany_def sampleRival_def)

section \<open>Admin login\<close>

text \<open>
  C6: a login request with role admin whose admin key differs from the configured
  \<open>ADMIN_KEY\<close> is answered with the invalid-admin-key error, whatever the email and
  password and whatever the users collection holds (so also when they are correct); the
  session is not changed and no database query has been issued.
\<close>

theorem C6_wrong_admin_key_rejected_before_lookup:
  assumes "b_role b = Some ''admin''" and "b_adminKey b \<noteq> correctAdminKey"
  shows "loginUser compare correctAdminKey b sess usersColl
           = (Render 200 ''pages/login'' (Some ''Invalid admin key. Access denied.''),
              sess, [])"
  using assms by (simp add: loginUser_def)

theorem C6_wrong_admin_key_rejected_before_lookup_witness:
  "b_role sampleLoginBody = Some ''admin'' \<and> b_adminKey sampleLoginBody \<noteq> Some ''s3cret''
   \<and> find (\<lambda>u. Some (email u) = b_email sampleLoginBody \<and> Some (role u) = b_role sampleLoginBody)
          (users sampleStore) = Some sampleAdmin
   \<and> sampleCompare ''letmein'' (password sampleAdmin)
   \<and> b_password sampleLoginBody = Some ''letmein''
   \<and> loginUser sampleCompare (Some ''s3cret'') sampleLoginBody None (users sampleStore)
       = (Render 200 ''pages/login'' (Some ''Invalid admin key. Access denied.''), None, [])
   \<and> loginUser sampleCompare (Some ''guess'') sampleLoginBody None (users sampleStore)
       = (Redirect ''/admin/dashboard'', Some sampleAdmin,
          [UserFindOne (Some ''root@campus.edu'') (Some ''admin'')])"
proof -
  have h1: "b_role sampleLoginBody = Some ''admin''"
    by (simp add: sampleLoginBody_def)
  have h2: "b_adminKey sampleLoginBody \<noteq> Some ''s3cret''"
    by (simp add: sampleLoginBody_def)
  have h3: "find (\<lambda>u. Some (email u) = b_email sampleLoginBody
                      \<and> Some (role u) = b_role sampleLoginBody)
                 (users sampleStore) = Some sampleAdmin"
    by (simp add: sampleLoginBody_def sampleStore_def sampleAdmin_def)
  have h4: "sampleCompare ''letmein'' (password sampleAdmin)
            \<and> b_password sampleLoginBody = Some ''letmein''"
    by (simp add: sampleCompare_def sampleAdmin_def sampleLoginBody_def)
  have h5: "loginUser sampleCompare (Some ''guess'') sampleLoginBody None (users sampleStore)
       = (Redirect ''/admin/dashboard'', Some sampleAdmin,
          [UserFindOne (Some ''root@campus.edu'') (Some ''admin'')])"
    using h3 h4 by (simp add: loginUser_def truthy_def sampleLoginBody_def sampleAdmin_def)
  show ?thesis
    using C6_wrong_admin_key_rejected_before_lookup
            [OF h1 h2, of sampleCompare None "users sampleStore"] h1 h2 h3 h4 h5
    by simp
qed

section \<open>The authorization gate\<close>

text \<open>
  C8 (as stated): with no session user the gate redirects to login (page routes) or
  answers 401 (data routes). The routers are mounted behind \<open>isStudent\<close>,
  \<open>isCompany\<close> and \<open>isAdmin\<close>, which answer a request without session user with
  the 403 error page: the apply route, a data route, does so.
\<close>

theorem C8_no_session_user_gets_403_counterexample:
  "studentApplyRoute 1000 31 None 20 sampleStoreNoApps
     = (Render 403 ''pages/error'' (Some ''Access denied. Student account required.''),
        sampleStoreNoApps)
   \<and> statusCode (fst (studentApplyRoute 1000 31 None 20 sampleStoreNoApps)) = 403
   \<and> statusCode (fst (studentApplyRoute 1000 31 None 20 sampleStoreNoApps)) \<noteq> 401
   \<and> fst (studentApplyRoute 1000 31 None 20 sampleStoreNoApps) \<noteq> Redirect ''/auth/login''"
  by (simp add: studentApplyRoute_def routerUse_def isStudent_def)

text \<open>
  C8 (amended): \<open>checkRole\<close> yields exactly one of three outcomes: redirect to login
  with no session user, the 403 error page for a session user whose role is not in the
  allowed set, and allow otherwise. The gates in front of the mounted routers
  (\<open>isAdmin\<close>, \<open>isCompany\<close>, \<open>isStudent\<close>) and \<open>requireRole\<close> yield one of two:
  allow for a session user with the one required role, and a 403 in every other case,
  a missing session user included; \<open>isAuthenticated\<close> allows any session user and
  redirects to login without one. Whenever a gate does not allow, its response is the
  answer and the guarded handler is not run: the store is returned as it was, whatever
  the handler is.
\<close>

theorem C8_gate_outcomes:
  "checkRole roles None = Respond (Redirect ''/auth/login'')
   \<and> checkRole roles (Some u)
       = (if role u \<in> set roles then Next
          else Respond (Render 403 ''pages/error''
                          (Some ''Access denied. Insufficient privileges.'')))
   \<and> isAdmin sess
       = (if map_option role sess = Some ''admin'' then Next
          else Respond (Render 403 ''pages/error''
                          (Some ''Access denied. Admin privileges required.'')))
   \<and> isCompany sess
       = (if map_option role sess = Some ''company'' then Next
          else Respond (Render 403 ''pages/error''
                          (Some ''Access denied. Company account required.'')))
   \<and> isStudent sess
       = (if map_option role sess = Some ''student'' then Next
          else Respond (Render 403 ''pages/error''
                          (Some ''Access denied. Student account required.'')))
   \<and> requireRole r sess
       = (if map_option role sess = Some r then Next
          else Respond (Send 403 ''Forbidden''))
   \<and> isAuthenticated sess
       = (if sess \<noteq> None then Next else Respond (Redirect ''/auth/login''))
   \<and> (g sess = Respond resp \<longrightarrow> routerUse g handler sess st = (resp, st))
   \<and> (g sess = Next \<longrightarrow> routerUse g handler sess st = handler sess st)"
  by (cases sess)
     (simp_all add: checkRole_def isAdmin_def isCompany_def isStudent_def requireRole_def
        isAuthenticated_def routerUse_def)

theorem C8_gate_outcomes_witness:
  "checkRole [''admin'', ''company''] None = Respond (Redirect ''/auth/login'')
   \<and> checkRole [''admin'', ''company''] (Some sampleStudent)
       = Respond (Render 403 ''pages/error'' (Some ''Access denied. Insufficient privileges.''))
   \<and> checkRole [''admin'', ''company''] (Some sampleCompany) = Next
   \<and> isCompany (Some sampleStudent)
       = Respond (Render 403 ''pages/error'' (Some ''Access denied. Company account required.''))
   \<and> companyDeleteJobRoute (Some sampleStudent) 20 sampleStore
       = (Render 403 ''pages/error'' (Some ''Access denied. Company account required.''),
          sampleStore)
   \<and> isCompany (Some sampleCompany) = Next
   \<and> companyDeleteJobRoute (Some sampleCompany) 20 sampleStore
       = companyDeleteJob (Some sampleCompany) 20 sampleStore"
proof -
  have h1: "role sampleStudent = ''student'' \<and> role sampleCompany = ''company''"
    by (simp add: sampleStudent_def sampleCompany_def)
  note gates = C8_gate_outcomes [where roles = "[''admin'', ''company'']" and u = sampleStudent
      and sess = "Some sampleStudent" and g = isCompany
      and resp = "Render 403 ''pages/error'' (Some ''Access denied. Company account required.'')"
      and handler = "\<lambda>s. companyDeleteJob s 20" and st = sampleStore]
  note allowed = C8_gate_outcomes [where roles = "[''admin'', ''company'']" and u = sampleCompany
      and sess = "Some sampleCompany" and g = isCompany
      and handler = "\<lambda>s. companyDeleteJob s 20" and st = sampleStore]
  show ?thesis
    using gates allowed h1 by (simp add: companyDeleteJobRoute_def)
qed

end
